theory Spec2Isabelle
  imports Complex_Main "HOL-Library.Word" "HOL-Library.Sublist"
begin

unbundle bit_operations_syntax

section \<open>Typed values of the request context\<close>

text \<open>
  The packages \<^verbatim>\<open>internal/types/op\<close>, \<^verbatim>\<open>acl\<close>, \<^verbatim>\<open>category\<close>, \<^verbatim>\<open>user\<close> and
  \<^verbatim>\<open>index\<close> are used by the sources but are not among them. Their types are declared
  here with the constants, fields and functions the sources use.
\<close>

datatype Operation = op_Read | op_Write | op_Delete

datatype ACL = acl_User | acl_Permission | acl_Analytics | acl_Search | acl_Reindex | acl_Cluster

type_synonym Category = string

record User =
  UserId :: string
  Username :: string
  Password :: string
  Email :: string
  IsAdmin :: "bool option"
  ACLs :: "ACL list"
  Ops :: "Operation list"
  Categories :: "Category list"
  Indices :: "string list"

definition op_String :: "Operation \<Rightarrow> string" where
  \<comment> \<open>Modelled from the spec: \<^verbatim>\<open>op.Operation.String\<close> is not under src/; scenario 3
      prints Delete as \<^verbatim>\<open>delete\<close>, the other operations are printed alike.\<close>
  "op_String operation =
     (case operation of op_Read \<Rightarrow> ''read'' | op_Write \<Rightarrow> ''write'' | op_Delete \<Rightarrow> ''delete'')"

definition acl_String :: "ACL \<Rightarrow> string" where
  \<comment> \<open>Modelled from the spec: \<^verbatim>\<open>acl.ACL.String\<close> is not under src/; the category is
      printed by its name in lower case, as the operations are.\<close>
  "acl_String a =
     (case a of acl_User \<Rightarrow> ''user'' | acl_Permission \<Rightarrow> ''permission''
      | acl_Analytics \<Rightarrow> ''analytics'' | acl_Search \<Rightarrow> ''search''
      | acl_Reindex \<Rightarrow> ''reindex'' | acl_Cluster \<Rightarrow> ''cluster'')"

definition op_Contains :: "Operation list \<Rightarrow> Operation \<Rightarrow> bool" where
  \<comment> \<open>Modelled from the spec: \<^verbatim>\<open>op.Contains\<close> is not under src/; the spec's check is
      \<^verbatim>\<open>Operation \<in> principal.ops\<close>.\<close>
  "op_Contains ops operation = (operation \<in> set ops)"

definition acl_Contains :: "ACL list \<Rightarrow> ACL \<Rightarrow> bool" where
  \<comment> \<open>Modelled from the spec: \<^verbatim>\<open>acl.Contains\<close> is not under src/; the spec's check is
      \<^verbatim>\<open>ACLCategory \<in> principal.acls\<close>.\<close>
  "acl_Contains acls a = (a \<in> set acls)"

text \<open>
  A context value is an \<^verbatim>\<open>interface{}\<close>: the middleware store pointers
  (\<^verbatim>\<open>*user.User\<close>, \<^verbatim>\<open>*op.Operation\<close>, \<^verbatim>\<open>*acl.ACL\<close>, where \<open>None\<close> is the nil pointer)
  and the slice of index names; \<open>OtherValue\<close> stands for a value of any other dynamic
  type. \<^verbatim>\<open>ctx.Value(key)\<close> is \<open>None\<close> when the key is absent.
\<close>

datatype CtxKey = user_CtxKey | op_CtxKey | acl_CtxKey | index_CtxKey

datatype CtxValue =
    PtrUser "User option"
  | PtrOperation "Operation option"
  | PtrACL "ACL option"
  | StringSlice "string list"
  | OtherValue string

section \<open>Requests, response writers and handlers\<close>

text \<open>
  Header keys are the canonical ones the sources name (\<^verbatim>\<open>X-Search-Id\<close> and the like), so
  \<^verbatim>\<open>Header.Get\<close> and \<^verbatim>\<open>Header.Set\<close> are a lookup and an update at the key as written.
\<close>

type_synonym Header = "string \<rightharpoonup> string list"

definition Header_Get :: "Header \<Rightarrow> string \<Rightarrow> string" where
  "Header_Get h k = (case h k of None \<Rightarrow> [] | Some [] \<Rightarrow> [] | Some (v # _) \<Rightarrow> v)"

definition Header_Set :: "Header \<Rightarrow> string \<Rightarrow> string \<Rightarrow> Header" where
  "Header_Set h k v = h(k \<mapsto> [v])"

record Request =
  Method :: string
  RequestURI :: string
  Header :: Header
  Context :: "CtxKey \<rightharpoonup> CtxValue"
  BasicAuth :: "(string \<times> string) option"
  mux_Vars :: "string \<rightharpoonup> string"
  ReqBody :: "string option"

text \<open>
  A response writer is either an \<^verbatim>\<open>httptest.ResponseRecorder\<close> (\<open>reqMethod = None\<close>) or the
  response of the \<^verbatim>\<open>net/http\<close> server to a request (\<open>reqMethod = Some m\<close>, with \<open>m\<close> the
  request's method). For both the header map stays writable, the first \<^verbatim>\<open>WriteHeader\<close>
  fixes the status and takes a snapshot of the header map (what is sent), later ones are
  ignored, and \<^verbatim>\<open>Write\<close> sends status 200 first when none was sent. A recorder keeps every
  byte written. The server's response (as in the Go release of the sources' time) returns
  \<^verbatim>\<open>ErrBodyNotAllowed\<close> and sends nothing under a status 1xx, 204 or 304, returns
  \<^verbatim>\<open>ErrContentLength\<close> and sends nothing once more bytes are written than a valid
  \<^verbatim>\<open>Content-Length\<close> header declared, and swallows the body of a HEAD request; \<open>Body\<close> is
  what reaches the client and \<open>written\<close> the server's count of the bytes accepted. The
  range check of \<^verbatim>\<open>WriteHeader\<close> on the status (100 to 999) and the headers the server adds
  or rewrites itself (\<^verbatim>\<open>Date\<close>, \<^verbatim>\<open>Content-Type\<close>, an invalid \<^verbatim>\<open>Content-Length\<close>) are not
  modelled.
\<close>

record ResponseWriter =
  HeaderMap :: Header
  wroteHeader :: bool
  Code :: nat
  snapHeader :: Header
  Body :: string
  reqMethod :: "string option"
  written :: nat

definition NewRecorder :: ResponseWriter where
  "NewRecorder =
     \<lparr>HeaderMap = Map.empty, wroteHeader = False, Code = 200, snapHeader = Map.empty, Body = [],
      reqMethod = None, written = 0\<rparr>"


definition WriteHeader :: "nat \<Rightarrow> ResponseWriter \<Rightarrow> ResponseWriter" where
  "WriteHeader c w =
     (if wroteHeader w then w else w\<lparr>wroteHeader := True, Code := c, snapHeader := HeaderMap w\<rparr>)"

definition bodyAllowedForStatus :: "nat \<Rightarrow> bool" where
  "bodyAllowedForStatus status =
     (if 100 \<le> status \<and> status \<le> 199 then False
      else if status = 204 then False
      else if status = 304 then False
      else True)"

definition parseContentLength :: "string \<Rightarrow> nat option" where
  \<comment> \<open>the server's reading of the header: \<^verbatim>\<open>strconv.ParseInt(cl, 10, 64)\<close> without an error
      and with a value \<^verbatim>\<open>v >= 0\<close>; \<open>None\<close> leaves \<^verbatim>\<open>contentLength\<close> at -1\<close>
  "parseContentLength cl =
     (let neg = (cl \<noteq> [] \<and> hd cl = CHR ''-'');
          ds = (if cl \<noteq> [] \<and> (hd cl = CHR ''+'' \<or> hd cl = CHR ''-'') then tl cl else cl)
      in if ds = [] \<or> \<not> list_all (\<lambda>c. 48 \<le> (of_char c :: nat) \<and> (of_char c :: nat) \<le> 57) ds
         then None
         else (let un = foldl (\<lambda>n c. 10 * n + (of_char c - 48)) (0 :: nat) ds
               in if neg then (if un = 0 then Some 0 else None)
                  else if un < 2 ^ 63 then Some un else None))"

definition Write :: "string \<Rightarrow> ResponseWriter \<Rightarrow> ResponseWriter" where
  "Write b w =
     (let w' = WriteHeader 200 w in
      case reqMethod w' of
        None \<Rightarrow> w'\<lparr>Body := Body w' @ b\<rparr>
      | Some m \<Rightarrow>
          if length b = 0 then w'
          else if \<not> bodyAllowedForStatus (Code w') then w'
          else (let w' = w'\<lparr>written := written w' + length b\<rparr> in
                case parseContentLength (Header_Get (snapHeader w') ''Content-Length'') of
                  Some contentLength \<Rightarrow>
                    if written w' > contentLength then w'
                    else if m = ''HEAD'' then w'
                    else w'\<lparr>Body := Body w' @ b\<rparr>
                | None \<Rightarrow>
                    if m = ''HEAD'' then w' else w'\<lparr>Body := Body w' @ b\<rparr>))"

text \<open>What the client receives: the status, the headers of the snapshot and the body.\<close>

definition sentStatus :: "ResponseWriter \<Rightarrow> nat" where
  "sentStatus w = (if wroteHeader w then Code w else 200)"

definition sentHeader :: "ResponseWriter \<Rightarrow> Header" where
  "sentHeader w = (if wroteHeader w then snapHeader w else HeaderMap w)"

datatype error = Panic

type_synonym HandlerFunc = "ResponseWriter \<Rightarrow> Request \<Rightarrow> error + ResponseWriter"

subsection \<open>The helpers of package util\<close>

fun decimal :: "nat \<Rightarrow> string" where
  "decimal n =
     (if n < 10 then [''0123456789'' ! n]
      else decimal (n div 10) @ [''0123456789'' ! (n mod 10)])"

declare decimal.simps [simp del]

definition quoteJSON :: "string \<Rightarrow> string" where
  "quoteJSON s =
     ''\"'' @ concat (map (\<lambda>c. if c = CHR ''\"'' \<or> c = CHR 0x5C then [CHR 0x5C, c] else [c]) s)
       @ ''\"''"

definition errorEnvelope :: "nat \<Rightarrow> string \<Rightarrow> string" where
  \<comment> \<open>Modelled from the spec: the error envelope
      \<^verbatim>\<open>{ "error": { "code": <http status>, "message": <string> } }\<close>.\<close>
  "errorEnvelope code msg =
     ''{\"error\":{\"code\":'' @ decimal code @ '',\"message\":'' @ quoteJSON msg @ ''}}''"

definition WriteBackMessage :: "ResponseWriter \<Rightarrow> string \<Rightarrow> nat \<Rightarrow> ResponseWriter" where
  \<comment> \<open>Modelled from the spec: \<^verbatim>\<open>util.WriteBackMessage\<close> is not under src/; it sends the
      status and the JSON envelope that carries the status and the message.\<close>
  "WriteBackMessage w msg code = Write (errorEnvelope code msg) (WriteHeader code w)"

definition WriteBackError :: "ResponseWriter \<Rightarrow> string \<Rightarrow> nat \<Rightarrow> ResponseWriter" where
  \<comment> \<open>Modelled from the spec: \<^verbatim>\<open>util.WriteBackError\<close> is not under src/; it sends the
      status and the error envelope.\<close>
  "WriteBackError w msg code = Write (errorEnvelope code msg) (WriteHeader code w)"

definition WriteBackRaw :: "ResponseWriter \<Rightarrow> string \<Rightarrow> nat \<Rightarrow> ResponseWriter" where
  \<comment> \<open>Modelled from the spec: \<^verbatim>\<open>util.WriteBackRaw\<close> is not under src/; successful
      passthroughs carry the body verbatim.\<close>
  "WriteBackRaw w raw code = Write raw (WriteHeader code w)"

abbreviation StatusBadRequest :: nat where "StatusBadRequest \<equiv> 400"
abbreviation StatusUnauthorized :: nat where "StatusUnauthorized \<equiv> 401"
abbreviation StatusForbidden :: nat where "StatusForbidden \<equiv> 403"
abbreviation StatusNotFound :: nat where "StatusNotFound \<equiv> 404"
abbreviation StatusInternalServerError :: nat where "StatusInternalServerError \<equiv> 500"
abbreviation StatusOK :: nat where "StatusOK \<equiv> 200"

section \<open>The middleware of the analytics plugin (plugins/analytics/middleware.go)\<close>

subsection \<open>classifier\<close>

definition classifier_operation :: "string \<Rightarrow> Operation" where
  \<comment> \<open>the \<^verbatim>\<open>switch r.Method\<close> of \<^verbatim>\<open>classifier\<close>\<close>
  "classifier_operation m =
     (if m = ''GET'' then op_Read
      else if m = ''POST'' then op_Write
      else if m = ''PUT'' then op_Write
      else if m = ''PATCH'' then op_Write
      else if m = ''DELETE'' then op_Delete
      else op_Read)"

definition classifier :: "HandlerFunc \<Rightarrow> HandlerFunc" where
  "classifier h w r =
     (let analyticsACL = acl_Analytics;
          operation = classifier_operation (Method r);
          ctx = Context r;
          ctx = ctx(acl_CtxKey \<mapsto> PtrACL (Some analyticsACL));
          ctx = ctx(op_CtxKey \<mapsto> PtrOperation (Some operation));
          r = r\<lparr>Context := ctx\<rparr>
      in h w r)"

subsection \<open>validateOp and validateACL\<close>

text \<open>
  An unchecked type assertion \<^verbatim>\<open>x.(*T)\<close> panics when the dynamic type is another one, and
  reading through a nil pointer panics.
\<close>

definition validateOp :: "HandlerFunc \<Rightarrow> HandlerFunc" where
  "validateOp h w r =
     (let ctx = Context r in
      case ctx user_CtxKey of
        None \<Rightarrow> Inr (WriteBackMessage w ''Internal server error'' StatusInternalServerError)
      | Some ctxUser \<Rightarrow>
         (case ctxUser of
            PtrUser u \<Rightarrow>
              (case ctx op_CtxKey of
                 None \<Rightarrow> Inr (WriteBackMessage w ''Internal server error'' StatusInternalServerError)
               | Some ctxOp \<Rightarrow>
                  (case ctxOp of
                     PtrOperation operation \<Rightarrow>
                       (case u of
                          None \<Rightarrow> Inl Panic
                        | Some u \<Rightarrow>
                           (case operation of
                              None \<Rightarrow> Inl Panic
                            | Some operation \<Rightarrow>
                                if \<not> op_Contains (Ops u) operation then
                                  Inr (WriteBackMessage w
                                    (''user with user_id='' @ UserId u @ '' does not have '' @ [CHR 0x27]
                                       @ op_String operation @ [CHR 0x27] @ '' op access'')
                                    StatusUnauthorized)
                                else h w r))
                   | _ \<Rightarrow> Inl Panic))
          | _ \<Rightarrow> Inl Panic))"

definition validateACL :: "HandlerFunc \<Rightarrow> HandlerFunc" where
  "validateACL h w r =
     (let ctx = Context r in
      case ctx user_CtxKey of
        None \<Rightarrow> Inr (WriteBackMessage w ''Internal server error'' StatusInternalServerError)
      | Some ctxUser \<Rightarrow>
         (case ctxUser of
            PtrUser u \<Rightarrow>
              (case u of
                 None \<Rightarrow> Inl Panic
               | Some u \<Rightarrow>
                   if \<not> acl_Contains (ACLs u) acl_Analytics then
                     Inr (WriteBackMessage w
                       (''user with \"user_id\"=\"'' @ UserId u @ ''\" does not have '' @ [CHR 0x27]
                          @ acl_String acl_Analytics @ [CHR 0x27] @ '' acl'')
                       StatusUnauthorized)
                   else h w r)
          | _ \<Rightarrow> Inl Panic))"

subsection \<open>Recorder\<close>

abbreviation XSearchQuery :: string where "XSearchQuery \<equiv> ''X-Search-Query''"
abbreviation XSearchId :: string where "XSearchId \<equiv> ''X-Search-Id''"
abbreviation XSearchFilters :: string where "XSearchFilters \<equiv> ''X-Search-Filters''"
abbreviation XSearchClick :: string where "XSearchClick \<equiv> ''X-Search-Click''"
abbreviation XSearchClickPosition :: string where "XSearchClickPosition \<equiv> ''X-Search-Click-Position''"
abbreviation XSearchConversion :: string where "XSearchConversion \<equiv> ''X-Search-Conversion''"
abbreviation XSearchCustomEvent :: string where "XSearchCustomEvent \<equiv> ''X-Search-Custom-Event''"

datatype json =
    JNull | JBool bool | JNumber real | JString string
  | JArray "json list" | JObject "(string \<times> json) list"

text \<open>
  A hit's \<^verbatim>\<open>Source\<close> is a \<^verbatim>\<open>map[string]interface{}\<close>; \<open>None\<close> is the nil map.
\<close>

record searchHit =
  hit_Source :: "(string \<times> json) list option"
  hit_Type :: string
  hit_Id :: string

record searchHits =
  Total :: int
  HitList :: "searchHit list"

record searchResponse =
  Took :: real
  Hits :: searchHits

record mSearchResponse =
  Responses :: "searchResponse list"

text \<open>
  The libraries and the packages outside src/ that the recorder calls: the UUID drawn by
  \<^verbatim>\<open>uuid.New\<close>, \<^verbatim>\<open>encoding/json\<close> (\<open>None\<close> where it returns an error), the formatted
  \<^verbatim>\<open>time.Now\<close>, package \<^verbatim>\<open>iplookup\<close>, \<^verbatim>\<open>strconv.Atoi\<close>, and the package's own \<^verbatim>\<open>parse\<close> of
  a key-value header.
\<close>

record Env =
  uuid_New :: "128 word"
  json_Unmarshal_searchResponse :: "string \<Rightarrow> searchResponse option"
  json_Unmarshal_mSearchResponse :: "string \<Rightarrow> mSearchResponse option"
  json_Marshal :: "(string \<times> json) list option \<Rightarrow> string option"
  time_Now_Format :: string
  iplookup_FromRequest :: "Request \<Rightarrow> string"
  iplookup_GetCoordinates :: "string \<Rightarrow> string option"
  iplookup_GetCountry :: "string \<Rightarrow> string option"
  strconv_Atoi :: "string \<Rightarrow> int option"
  parse :: "string \<Rightarrow> (string \<times> string) list"

definition uuid_String :: "128 word \<Rightarrow> string" where
  \<comment> \<open>the 36 characters of \<^verbatim>\<open>UUID.String\<close>: 32 hexadecimal digits in groups of 8, 4, 4, 4, 12\<close>
  "uuid_String u =
     (let hs = map (\<lambda>i. ''0123456789abcdef'' ! unat (drop_bit (4 * (31 - i)) u AND 15)) [0..<32]
      in take 8 hs @ ''-'' @ take 4 (drop 8 hs) @ ''-'' @ take 4 (drop 12 hs) @ ''-''
           @ take 4 (drop 16 hs) @ ''-'' @ drop 20 hs)"

datatype goroutine = Go_recordResponse string string ResponseWriter Request

text \<open>
  The recorder returns the client's writer and the goroutine it starts, if any
  (\<^verbatim>\<open>go a.recordResponse(docId, searchId, respRecorder, r)\<close>).
\<close>

definition Recorder ::
  "Env \<Rightarrow> HandlerFunc \<Rightarrow> ResponseWriter \<Rightarrow> Request \<Rightarrow> error + ResponseWriter \<times> goroutine option"
where
  "Recorder env h w r =
     (let ctx = Context r in
      case ctx acl_CtxKey of
        None \<Rightarrow> Inr (WriteBackMessage w ''Internal server error'' StatusInternalServerError, None)
      | Some ctxACL \<Rightarrow>
         (case ctxACL of
            PtrACL reqACL \<Rightarrow>
              (let searchQuery = Header_Get (Header r) XSearchQuery;
                   searchId = Header_Get (Header r) XSearchId
               in case reqACL of
                    None \<Rightarrow> Inl Panic
                  | Some reqACL \<Rightarrow>
                      if reqACL \<noteq> acl_Search \<or> (searchQuery = [] \<and> searchId = []) then
                        (case h w r of Inl e \<Rightarrow> Inl e | Inr w' \<Rightarrow> Inr (w', None))
                      else
                        (let docId = (if searchId = [] then uuid_String (uuid_New env) else searchId)
                         in case h NewRecorder r of
                              Inl e \<Rightarrow> Inl e
                            | Inr respRecorder \<Rightarrow>
                               (let w = w\<lparr>HeaderMap := HeaderMap w ++ HeaderMap respRecorder\<rparr>;
                                    w = w\<lparr>HeaderMap := Header_Set (HeaderMap w) XSearchId docId\<rparr>;
                                    w = WriteHeader (Code respRecorder) w;
                                    w = Write (Body respRecorder) w
                                in Inr (w, Some (Go_recordResponse docId searchId respRecorder r)))))
          | _ \<Rightarrow> Inr (WriteBackMessage w ''Internal server error'' StatusInternalServerError, None)))"

subsection \<open>recordResponse\<close>

fun Replace :: "string \<Rightarrow> string \<Rightarrow> string \<Rightarrow> string" where
  \<comment> \<open>\<^verbatim>\<open>bytes.Replace(s, old, new, -1)\<close> for a non-empty \<open>old\<close>, the only use the source
      makes of it: every non-overlapping instance, from the left\<close>
  "Replace [] old new = []"
| "Replace (c # cs) old new =
     (if old \<noteq> [] \<and> prefix old (c # cs) then new @ Replace (drop (length old) (c # cs)) old new
      else c # Replace cs old new)"

definition strconv_ParseBool :: "string \<Rightarrow> bool option" where
  "strconv_ParseBool s =
     (if s \<in> {''1'', ''t'', ''T'', ''TRUE'', ''true'', ''True''} then Some True
      else if s \<in> {''0'', ''f'', ''F'', ''FALSE'', ''false'', ''False''} then Some False
      else None)"

definition zero_searchResponse :: searchResponse where
  \<comment> \<open>the zero value of \<^verbatim>\<open>var esResponse searchResponse\<close>\<close>
  "zero_searchResponse = \<lparr>Took = 0, Hits = \<lparr>Total = 0, HitList = []\<rparr>\<rparr>"

definition recordResponse_unmarshal :: "Env \<Rightarrow> string \<Rightarrow> string \<Rightarrow> searchResponse option" where
  \<comment> \<open>lines 107 to 124: \<open>None\<close> where the function logs the error and returns\<close>
  "recordResponse_unmarshal env uri respBody =
     (let esResponse = zero_searchResponse in
      if sublist ''_msearch'' uri then
        (case json_Unmarshal_mSearchResponse env respBody of
           None \<Rightarrow> None
         | Some m \<Rightarrow> Some (if length (Responses m) > 0 then Responses m ! 0 else esResponse))
      else
        (case json_Unmarshal_searchResponse env respBody of
           None \<Rightarrow> None
         | Some esResponse \<Rightarrow> Some esResponse))"

function recordResponse_hits ::
  "Env \<Rightarrow> searchHit list \<Rightarrow> nat \<Rightarrow> (string \<rightharpoonup> string) list \<Rightarrow> (string \<rightharpoonup> string) list"
where
  \<comment> \<open>lines 127 to 141: the loop over the first ten hits, from index \<open>i\<close>\<close>
  "recordResponse_hits env hs i hits =
     (if i < 10 \<and> i < length hs then
        (let source = hit_Source (hs ! i) in
         case json_Marshal env source of
           None \<Rightarrow> recordResponse_hits env hs (i + 1) hits
         | Some raw \<Rightarrow>
            (let h = Map.empty;
                 h = h(''id'' \<mapsto> hit_Id (hs ! i));
                 h = h(''type'' \<mapsto> hit_Type (hs ! i));
                 h = h(''source'' \<mapsto> raw)
             in recordResponse_hits env hs (i + 1) (hits @ [h])))
      else hits)"
  by pat_completeness auto
termination
  by (relation "measure (\<lambda>(env, hs, i, hits). 10 - i)") auto

declare recordResponse_hits.simps [simp del]

datatype Value =
    VFloat real | VInt int | VBool bool | VString string | VStrings "string list"
  | VHits "(string \<rightharpoonup> string) list" | VPairs "(string \<times> string) list"

type_synonym Record = "string \<rightharpoonup> Value"

text \<open>
  The result is the call \<^verbatim>\<open>a.es.indexRecord(docId, record)\<close> the function ends with, \<open>None\<close>
  where it returns before, and a panic where a type assertion fails.
\<close>

definition recordResponse_origin ::
  "Env \<Rightarrow> string \<Rightarrow> Request \<Rightarrow> searchResponse \<Rightarrow> (string \<rightharpoonup> string) list \<Rightarrow> error + Record"
where
  \<comment> \<open>lines 143 to 156: the record with \<^verbatim>\<open>took\<close> and, when \<^verbatim>\<open>searchId == ""\<close>, the fields of
      the origin event; the unchecked \<^verbatim>\<open>.([]string)\<close> of line 146 panics on an absent
      value and on one of another type\<close>
  "recordResponse_origin env searchId r esResponse hits =
     (let record = Map.empty;
          record = record(''took'' \<mapsto> VFloat (Took esResponse))
      in if searchId = [] then
           (case Context r index_CtxKey of
              Some (StringSlice indices) \<Rightarrow>
                (let record = record(''indices'' \<mapsto> VStrings indices);
                     record = record(''search_query'' \<mapsto> VString (Header_Get (Header r) XSearchQuery));
                     record = record(''hits_in_response'' \<mapsto> VHits hits);
                     record = record(''total_hits'' \<mapsto> VInt (Total (Hits esResponse)));
                     record = record(''datestamp'' \<mapsto> VString (time_Now_Format env));
                     searchFilters = parse env (Header_Get (Header r) XSearchFilters)
                 in Inr (if length searchFilters > 0
                         then record(''search_filters'' \<mapsto> VPairs searchFilters)
                         else record))
            | _ \<Rightarrow> Inl Panic)
         else Inr record)"

definition recordResponse_events :: "Env \<Rightarrow> Request \<Rightarrow> Record \<Rightarrow> Record" where
  \<comment> \<open>lines 158 to 208: the address, its location and country, and the event headers\<close>
  "recordResponse_events env r record =
     (let ipAddr = iplookup_FromRequest env r;
          record = record(''ip'' \<mapsto> VString ipAddr);
          record = (case iplookup_GetCoordinates env ipAddr of
                      None \<Rightarrow> record
                    | Some coordinates \<Rightarrow> record(''location'' \<mapsto> VString coordinates));
          record = (case iplookup_GetCountry env ipAddr of
                      None \<Rightarrow> record
                    | Some country \<Rightarrow> record(''country'' \<mapsto> VString country));
          searchClick = Header_Get (Header r) XSearchClick;
          record = (if searchClick \<noteq> [] then
                      (case strconv_ParseBool searchClick of
                         Some clicked \<Rightarrow> record(''click'' \<mapsto> VBool clicked)
                       | None \<Rightarrow> record)
                    else record);
          searchClickPosition = Header_Get (Header r) XSearchClickPosition;
          record = (if searchClickPosition \<noteq> [] then
                      (case strconv_Atoi env searchClickPosition of
                         Some pos \<Rightarrow> record(''click_position'' \<mapsto> VInt pos)
                       | None \<Rightarrow> record)
                    else record);
          searchConversion = Header_Get (Header r) XSearchConversion;
          record = (if searchConversion \<noteq> [] then
                      (case strconv_ParseBool searchConversion of
                         Some conversion \<Rightarrow> record(''conversion'' \<mapsto> VBool conversion)
                       | None \<Rightarrow> record)
                    else record);
          customEvents = parse env (Header_Get (Header r) XSearchCustomEvent)
      in if length customEvents > 0
         then record(''custom_events'' \<mapsto> VPairs customEvents)
         else record)"

definition recordResponse ::
  "Env \<Rightarrow> string \<Rightarrow> string \<Rightarrow> ResponseWriter \<Rightarrow> Request \<Rightarrow> error + (string \<times> Record) option"
where
  "recordResponse env docId searchId respRecorder r =
     (let respBody = Body respRecorder;
          respBody = Replace respBody ''_source'' ''source'';
          respBody = Replace respBody ''_type'' ''type'';
          respBody = Replace respBody ''_id'' ''id''
      in case recordResponse_unmarshal env (RequestURI r) respBody of
           None \<Rightarrow> Inr None
         | Some esResponse \<Rightarrow>
            (let hits = recordResponse_hits env (HitList (Hits esResponse)) 0 []
             in case recordResponse_origin env searchId r esResponse hits of
                  Inl e \<Rightarrow> Inl e
                | Inr record \<Rightarrow> Inr (Some (docId, recordResponse_events env r record))))"

section \<open>The handlers of the users plugin that patch a principal\<close>

text \<open>
  A patch is a \<^verbatim>\<open>map[string]interface{}\<close>: \<open>patch k = None\<close> is \<^verbatim>\<open>patch[k] == nil\<close>. The
  values the handler looks at are the categories; \<open>PatchOther\<close> stands for a value of any
  other dynamic type.
\<close>

datatype PatchValue = PatchACLs "ACL list" | PatchCategories "Category list" | PatchOther string

type_synonym Patch = "string \<rightharpoonup> PatchValue"

text \<open>
  What the handlers call outside src/: \<^verbatim>\<open>encoding/json\<close>, \<^verbatim>\<open>User.GetPatch\<close> (\<open>Inl\<close> carries
  \<^verbatim>\<open>err.Error()\<close>), the table from a category to the ACL that admits it, and the store
  behind \<^verbatim>\<open>u.es\<close>, in a state of type \<open>'s\<close>: \<^verbatim>\<open>getUser\<close> reads a principal (\<open>None\<close> on an
  error), \<^verbatim>\<open>patchUser\<close> returns the raw document (\<open>None\<close> on an error) and the new state.
  A handler returns the writer and the state of the store; the inner \<open>Some w'\<close> is a
  response written inside the block that validates the categories, after which the
  handler returns.
\<close>

record 's UsersEnv =
  json_Unmarshal_User :: "string \<Rightarrow> User option"
  GetPatch :: "User \<Rightarrow> string + Patch"
  category_acls :: "(Category \<times> ACL) list"
  es_getUser :: "'s \<Rightarrow> string \<Rightarrow> User option"
  es_patchUser :: "'s \<Rightarrow> string \<Rightarrow> Patch \<Rightarrow> string option \<times> 's"

definition invalidCategory :: "Category \<Rightarrow> string" where
  \<comment> \<open>Modelled from the spec: the text of the error is not under src/; the spec asks for a
      message identifying the invalid category.\<close>
  "invalidCategory c = ''user does not have the acl required by category \"'' @ c @ ''\"''"

definition ValidateCategories :: "(Category \<times> ACL) list \<Rightarrow> User \<Rightarrow> Category list \<Rightarrow> string option" where
  \<comment> \<open>Modelled from the spec: \<^verbatim>\<open>User.ValidateCategories\<close> is not under src/. Every category
      must be reachable from some element of the principal's acls through the fixed table
      from categories to acls; the error names the first category that is not.\<close>
  "ValidateCategories tbl u categories =
     (case filter (\<lambda>c. \<not> (\<exists>a \<in> set (ACLs u). (c, a) \<in> set tbl)) categories of
        [] \<Rightarrow> None
      | c # _ \<Rightarrow> Some (invalidCategory c))"

definition patchUser :: "'s UsersEnv \<Rightarrow> 's \<Rightarrow> ResponseWriter \<Rightarrow> Request \<Rightarrow> ResponseWriter \<times> 's" where
  "patchUser env s w r =
     (let username = (case BasicAuth r of None \<Rightarrow> [] | Some (username, password) \<Rightarrow> username) in
      case ReqBody r of
        None \<Rightarrow> (WriteBackError w (''can'' @ [CHR 0x27] @ ''t read request body'') StatusBadRequest, s)
      | Some body \<Rightarrow>
         (case json_Unmarshal_User env body of
            None \<Rightarrow> (WriteBackError w (''can'' @ [CHR 0x27] @ ''t parse request body'') StatusBadRequest, s)
          | Some userBody \<Rightarrow>
             (case GetPatch env userBody of
                Inl err \<Rightarrow> (WriteBackError w err StatusBadRequest, s)
              | Inr patch \<Rightarrow>
                 (case (if patch ''acls'' = None \<and> patch ''categories'' \<noteq> None then
                          (case es_getUser env s username of
                             None \<Rightarrow>
                               Some (WriteBackError w
                                  (''an error occurred while fetching user with username=\"''
                                     @ username @ ''\"'')
                                  StatusInternalServerError)
                           | Some reqUser \<Rightarrow>
                              (case patch ''categories'' of
                                 Some (PatchCategories categories) \<Rightarrow>
                                   (case ValidateCategories (category_acls env) reqUser categories of
                                      Some err \<Rightarrow> Some (WriteBackError w err StatusBadRequest)
                                    | None \<Rightarrow> None)
                               | _ \<Rightarrow>
                                  Some (WriteBackError w
                                     (''an error occurred while validating categories patch for user \"''
                                        @ username @ ''\"'')
                                     StatusInternalServerError)))
                        else None) of
                    Some w' \<Rightarrow> (w', s)
                  | None \<Rightarrow>
                     (case es_patchUser env s username patch of
                        (Some raw, s') \<Rightarrow> (WriteBackRaw w raw StatusOK, s')
                      | (None, s') \<Rightarrow>
                          (WriteBackError w
                             (''user with \"username\"=\"'' @ username @ ''\" Not Found'')
                             StatusNotFound, s'))))))"

definition patchUserWithUsername ::
  "'s UsersEnv \<Rightarrow> 's \<Rightarrow> ResponseWriter \<Rightarrow> Request \<Rightarrow> ResponseWriter \<times> 's"
where
  "patchUserWithUsername env s w r =
     (let vars = mux_Vars r in
      case vars ''username'' of
        None \<Rightarrow>
          (WriteBackError w (''can'' @ [CHR 0x27] @ ''t patch user without a \"username\"'')
             StatusBadRequest, s)
      | Some username \<Rightarrow>
     (case ReqBody r of
        None \<Rightarrow> (WriteBackError w (''can'' @ [CHR 0x27] @ ''t read request body'') StatusBadRequest, s)
      | Some body \<Rightarrow>
         (case json_Unmarshal_User env body of
            None \<Rightarrow> (WriteBackError w (''can'' @ [CHR 0x27] @ ''t parse request body'') StatusBadRequest, s)
          | Some userBody \<Rightarrow>
             (case GetPatch env userBody of
                Inl err \<Rightarrow> (WriteBackError w err StatusBadRequest, s)
              | Inr patch \<Rightarrow>
                 (case (if patch ''acls'' = None \<and> patch ''categories'' \<noteq> None then
                          (case es_getUser env s username of
                             None \<Rightarrow>
                               Some (WriteBackError w
                                  (''an error occurred while fetching user with username=\"''
                                     @ username @ ''\"'')
                                  StatusInternalServerError)
                           | Some reqUser \<Rightarrow>
                              (case patch ''categories'' of
                                 Some (PatchCategories categories) \<Rightarrow>
                                   (case ValidateCategories (category_acls env) reqUser categories of
                                      Some err \<Rightarrow> Some (WriteBackError w err StatusBadRequest)
                                    | None \<Rightarrow> None)
                               | _ \<Rightarrow>
                                  Some (WriteBackError w
                                     (''an error occurred while validating categories patch for user \"''
                                        @ username @ ''\"'')
                                     StatusInternalServerError)))
                        else None) of
                    Some w' \<Rightarrow> (w', s)
                  | None \<Rightarrow>
                     (case es_patchUser env s username patch of
                        (Some raw, s') \<Rightarrow> (WriteBackRaw w raw StatusOK, s')
                      | (None, s') \<Rightarrow>
                          (WriteBackError w
                             (''user with \"username\"=\"'' @ username @ ''\" not found'')
                             StatusNotFound, s')))))))"

section \<open>Example inputs\<close>

definition okHandler :: HandlerFunc where
  "okHandler w r = Inr (WriteBackRaw w ''{}'' StatusOK)"

definition exampleRequest :: "string \<Rightarrow> string \<Rightarrow> Request" where
  "exampleRequest m uri =
     \<lparr>Method = m, RequestURI = uri, Header = Map.empty, Context = Map.empty, BasicAuth = None,
      mux_Vars = Map.empty, ReqBody = None\<rparr>"

definition alice :: User where
  \<comment> \<open>an admin without the Analytics category and without the Delete operation\<close>
  "alice =
     \<lparr>UserId = ''alice'', Username = ''alice'', Password = ''secret'', Email = [],
      IsAdmin = Some True, ACLs = [acl_User], Ops = [op_Read], Categories = [], Indices = []\<rparr>"

definition carol :: User where
  \<comment> \<open>scenario 3: a user with \<^verbatim>\<open>ops={Read}\<close>\<close>
  "carol =
     \<lparr>UserId = ''carol'', Username = ''carol'', Password = ''secret'', Email = [],
      IsAdmin = Some False, ACLs = [acl_Search], Ops = [op_Read], Categories = [], Indices = []\<rparr>"

definition deleteBy :: "User \<Rightarrow> Request" where
  \<comment> \<open>a DELETE request as it leaves the classifier and the authenticator\<close>
  "deleteBy u =
     (exampleRequest ''DELETE'' ''/_analytics/overview'')
       \<lparr>Context := [acl_CtxKey \<mapsto> PtrACL (Some acl_Analytics),
                    op_CtxKey \<mapsto> PtrOperation (Some op_Delete),
                    user_CtxKey \<mapsto> PtrUser (Some u)]\<rparr>"

definition scenarioBody :: string where
  \<comment> \<open>scenario 4: the upstream response\<close>
  "scenarioBody =
     ''{\"took\":7,\"hits\":{\"total\":2,\"hits\":[{\"_id\":\"a\",\"_type\":\"t\",\"_source\":{\"k\":1}},''
       @ ''{\"_id\":\"b\",\"_type\":\"t\",\"_source\":{\"k\":2}}]}}''"

definition scenarioResponse :: searchResponse where
  "scenarioResponse =
     \<lparr>Took = 7,
      Hits = \<lparr>Total = 2,
              HitList = [\<lparr>hit_Source = Some [(''k'', JNumber 1)], hit_Type = ''t'', hit_Id = ''a''\<rparr>,
                         \<lparr>hit_Source = Some [(''k'', JNumber 2)], hit_Type = ''t'', hit_Id = ''b''\<rparr>]\<rparr>\<rparr>"

definition exampleEnv :: Env where
  \<comment> \<open>the libraries on the bodies of the examples\<close>
  "exampleEnv =
     \<lparr>uuid_New = 0x0123456789abcdef0123456789abcdef,
      json_Unmarshal_searchResponse =
        (\<lambda>b. if b = ''{\"took\":7,\"hits\":{\"total\":2,\"hits\":[{\"id\":\"a\",\"type\":\"t\",\"source\":{\"k\":1}},''
                       @ ''{\"id\":\"b\",\"type\":\"t\",\"source\":{\"k\":2}}]}}''
              then Some scenarioResponse else None),
      json_Unmarshal_mSearchResponse =
        (\<lambda>b. if b = ''{\"responses\":[]}'' then Some \<lparr>Responses = []\<rparr> else None),
      json_Marshal =
        (\<lambda>source. if source = Some [(''k'', JNumber 1)] then Some ''{\"k\":1}''
                   else if source = Some [(''k'', JNumber 2)] then Some ''{\"k\":2}''
                   else None),
      time_Now_Format = ''2019/07/01 12:00:00'',
      iplookup_FromRequest = (\<lambda>r. ''127.0.0.1''),
      iplookup_GetCoordinates = (\<lambda>ip. None),
      iplookup_GetCountry = (\<lambda>ip. None),
      strconv_Atoi = (\<lambda>s. if s = ''3'' then Some 3 else None),
      parse = (\<lambda>s. [])\<rparr>"

definition upstream :: "string \<Rightarrow> HandlerFunc" where
  \<comment> \<open>a handler that relays the upstream's body with status 200\<close>
  "upstream body w r =
     Inr (Write body (WriteHeader StatusOK
            (w\<lparr>HeaderMap := Header_Set (HeaderMap w) ''Content-Type'' ''application/json''\<rparr>)))"

definition searchRequest :: "string \<Rightarrow> Header \<Rightarrow> (CtxKey \<rightharpoonup> CtxValue) \<Rightarrow> Request" where
  \<comment> \<open>a GET classified as a search\<close>
  "searchRequest uri hdr ctx =
     (exampleRequest ''GET'' uri)
       \<lparr>Header := hdr, Context := ctx(acl_CtxKey \<mapsto> PtrACL (Some acl_Search))\<rparr>"

definition scenarioRequest :: Request where
  \<comment> \<open>scenario 4: the origin search, with \<^verbatim>\<open>X-Search-Query: shoes\<close> and no \<^verbatim>\<open>X-Search-Id\<close>\<close>
  "scenarioRequest =
     searchRequest ''/myidx/_search'' [XSearchQuery \<mapsto> [''shoes'']]
       [index_CtxKey \<mapsto> StringSlice [''myidx'']]"

definition followupRequest :: Request where
  \<comment> \<open>scenario 5: the click that follows, with the \<^verbatim>\<open>X-Search-Id\<close> of the origin search\<close>
  "followupRequest =
     searchRequest ''/myidx/_search''
       [XSearchId \<mapsto> [''prev''], XSearchClick \<mapsto> [''true''], XSearchClickPosition \<mapsto> [''3'']]
       [index_CtxKey \<mapsto> StringSlice [''myidx'']]"

definition plainRequest :: Request where
  \<comment> \<open>a search with none of the analytics headers\<close>
  "plainRequest =
     searchRequest ''/myidx/_search'' Map.empty [index_CtxKey \<mapsto> StringSlice [''myidx'']]"

definition msearchNameRequest :: Request where
  \<comment> \<open>a single search on an index whose name contains \<^verbatim>\<open>_msearch\<close>\<close>
  "msearchNameRequest =
     searchRequest ''/my_msearch_logs/_search?size=1'' [XSearchQuery \<mapsto> [''shoes'']]
       [index_CtxKey \<mapsto> StringSlice [''my_msearch_logs'']]"

definition noIndexRequest :: Request where
  \<comment> \<open>the origin search of scenario 4 with no index names in its context\<close>
  "noIndexRequest = searchRequest ''/myidx/_search'' [XSearchQuery \<mapsto> [''shoes'']] Map.empty"

definition untypedUserRequest :: Request where
  \<comment> \<open>a request whose context holds the user's name where a \<^verbatim>\<open>*user.User\<close> is expected\<close>
  "untypedUserRequest =
     (deleteBy carol)\<lparr>Context := (Context (deleteBy carol))(user_CtxKey \<mapsto> OtherValue ''carol'')\<rparr>"

definition originFields :: "string set" where
  \<comment> \<open>the keys the record always gets in the branch \<^verbatim>\<open>searchId == ""\<close>\<close>
  "originFields =
     {''indices'', ''search_query'', ''hits_in_response'', ''total_hits'', ''datestamp''}"

definition originKeys :: "string set" where
  \<comment> \<open>those and the key of the optional filters\<close>
  "originKeys = insert ''search_filters'' originFields"

definition scenarioOrigin :: Record where
  \<comment> \<open>scenario 4: the record before the address and the event headers are added\<close>
  "scenarioOrigin =
     [''took'' \<mapsto> VFloat 7, ''indices'' \<mapsto> VStrings [''myidx''],
      ''search_query'' \<mapsto> VString ''shoes'',
      ''hits_in_response'' \<mapsto>
         VHits [[''id'' \<mapsto> ''a'', ''type'' \<mapsto> ''t'', ''source'' \<mapsto> ''{\"k\":1}''],
                [''id'' \<mapsto> ''b'', ''type'' \<mapsto> ''t'', ''source'' \<mapsto> ''{\"k\":2}'']],
      ''total_hits'' \<mapsto> VInt 2, ''datestamp'' \<mapsto> VString ''2019/07/01 12:00:00'']"

definition dave :: User where
  \<comment> \<open>scenario 6: a user with \<^verbatim>\<open>acls={Search}\<close>\<close>
  "dave =
     \<lparr>UserId = ''dave'', Username = ''dave'', Password = ''secret'', Email = [],
      IsAdmin = Some False, ACLs = [acl_Search], Ops = [op_Read, op_Write],
      Categories = [''search''], Indices = []\<rparr>"

definition exampleUsersEnv :: "(string \<times> User) list UsersEnv" where
  \<comment> \<open>a store kept as a list of documents by username; its \<^verbatim>\<open>patchUser\<close> writes the
      categories of the patch\<close>
  "exampleUsersEnv =
     \<lparr>json_Unmarshal_User =
        (\<lambda>b. if b = ''{\"categories\":[\"user\"]}''
              then Some \<lparr>UserId = [], Username = [], Password = [], Email = [], IsAdmin = None,
                         ACLs = [], Ops = [], Categories = [''user''], Indices = []\<rparr>
              else None),
      GetPatch = (\<lambda>u. Inr [''categories'' \<mapsto> PatchCategories (Categories u)]),
      category_acls =
        [(''user'', acl_User), (''permission'', acl_Permission), (''analytics'', acl_Analytics),
         (''search'', acl_Search)],
      es_getUser = (\<lambda>s username. map_of s username),
      es_patchUser =
        (\<lambda>s username patch.
           case map_of s username of
             None \<Rightarrow> (None, s)
           | Some u \<Rightarrow>
              (Some ''{\"result\":\"updated\"}'',
               map (\<lambda>(k, v). if k = username
                              then (k, case patch ''categories'' of
                                         Some (PatchCategories cs) \<Rightarrow> v\<lparr>Categories := cs\<rparr>
                                       | _ \<Rightarrow> v)
                              else (k, v)) s))\<rparr>"

definition patchRequest :: Request where
  \<comment> \<open>scenario 6: dave patches his own principal with \<^verbatim>\<open>categories=[user]\<close>\<close>
  "patchRequest =
     (exampleRequest ''PATCH'' ''/_user/dave'')
       \<lparr>BasicAuth := Some (''dave'', ''secret''), mux_Vars := [''username'' \<mapsto> ''dave''],
        ReqBody := Some ''{\"categories\":[\"user\"]}''\<rparr>"


section \<open>Properties\<close>

lemma Write_status:
  "wroteHeader (Write b w)"
  "Code (Write b w) = (if wroteHeader w then Code w else 200)"
  "snapHeader (Write b w) = (if wroteHeader w then snapHeader w else HeaderMap w)"
  by (simp_all add: Write_def WriteHeader_def Let_def split: option.splits)

lemma sentStatus_WriteBackMessage:
  "\<not> wroteHeader w \<Longrightarrow> sentStatus (WriteBackMessage w msg c) = c"
  by (simp add: sentStatus_def WriteBackMessage_def Write_status WriteHeader_def)

subsection \<open>The classifier\<close>

text \<open>
  C3. The classifier's mapping from the HTTP method to the operation is a function of the
  method alone: GET gives Read, POST, PUT and PATCH give Write, DELETE gives Delete and
  every other method gives Read; the classifier hands the handler the request with that
  operation (and the Analytics category) in its context.
\<close>

theorem classifier_operation_table:
  "classifier_operation ''GET'' = op_Read
   \<and> classifier_operation ''POST'' = op_Write
   \<and> classifier_operation ''PUT'' = op_Write
   \<and> classifier_operation ''PATCH'' = op_Write
   \<and> classifier_operation ''DELETE'' = op_Delete
   \<and> (m \<notin> {''GET'', ''POST'', ''PUT'', ''PATCH'', ''DELETE''} \<longrightarrow> classifier_operation m = op_Read)
   \<and> classifier h w r =
       h w (r\<lparr>Context := (Context r)(acl_CtxKey \<mapsto> PtrACL (Some acl_Analytics),
                                     op_CtxKey \<mapsto> PtrOperation (Some (classifier_operation (Method r))))\<rparr>)"
  by (simp add: classifier_operation_def classifier_def)

theorem classifier_operation_table_witness:
  "classifier_operation ''OPTIONS'' = op_Read \<and> classifier_operation ''PATCH'' = op_Write"
  using classifier_operation_table [of "''OPTIONS''"] by simp

subsection \<open>The authorizer: validateOp and validateACL\<close>

text \<open>
  C1. A principal with \<^verbatim>\<open>isAdmin == true\<close> is checked like any other: \<^verbatim>\<open>validateACL\<close> hands
  the request to the handler when Analytics is among the principal's acls, and
  \<^verbatim>\<open>validateOp\<close> when the operation is among its ops; otherwise each answers 401 with its
  message. Neither validator holds a check of the index patterns or reads \<^verbatim>\<open>IsAdmin\<close>.
\<close>

theorem admin_subject_to_checks:
  assumes "Context r user_CtxKey = Some (PtrUser (Some u))"
    and "IsAdmin u = Some True"
  shows "validateACL h w r =
           (if acl_Analytics \<in> set (ACLs u) then h w r
            else Inr (WriteBackMessage w
                   (''user with \"user_id\"=\"'' @ UserId u @ ''\" does not have '' @ [CHR 0x27]
                      @ acl_String acl_Analytics @ [CHR 0x27] @ '' acl'')
                   StatusUnauthorized))
         \<and> (Context r op_CtxKey = Some (PtrOperation (Some operation)) \<longrightarrow>
             validateOp h w r =
               (if operation \<in> set (Ops u) then h w r
                else Inr (WriteBackMessage w
                       (''user with user_id='' @ UserId u @ '' does not have '' @ [CHR 0x27]
                          @ op_String operation @ [CHR 0x27] @ '' op access'')
                       StatusUnauthorized)))"
  using assms(1) by (simp add: validateACL_def validateOp_def acl_Contains_def op_Contains_def)

theorem admin_subject_to_checks_witness:
  "validateACL okHandler NewRecorder (deleteBy alice) =
     Inr (WriteBackMessage NewRecorder
            (''user with \"user_id\"=\"alice\" does not have '' @ [CHR 0x27] @ ''analytics''
               @ [CHR 0x27] @ '' acl'')
            StatusUnauthorized)
   \<and> validateOp okHandler NewRecorder (deleteBy alice) =
     Inr (WriteBackMessage NewRecorder
            (''user with user_id=alice does not have '' @ [CHR 0x27] @ ''delete''
               @ [CHR 0x27] @ '' op access'')
            StatusUnauthorized)"
  using admin_subject_to_checks [of "deleteBy alice" alice okHandler NewRecorder op_Delete]
  by (simp add: deleteBy_def exampleRequest_def alice_def acl_String_def op_String_def)

theorem admin_bypass_counterexample:
  "IsAdmin alice = Some True
   \<and> validateOp okHandler NewRecorder (deleteBy alice) \<noteq> okHandler NewRecorder (deleteBy alice)
   \<and> validateACL okHandler NewRecorder (deleteBy alice) \<noteq> okHandler NewRecorder (deleteBy alice)"
  by (simp add: validateOp_def validateACL_def deleteBy_def exampleRequest_def alice_def
      op_Contains_def acl_Contains_def okHandler_def WriteBackMessage_def WriteBackRaw_def
      Write_def WriteHeader_def NewRecorder_def)

text \<open>
  C2. When the principal lacks the required operation, \<^verbatim>\<open>validateOp\<close> answers with status
  401 (\<^verbatim>\<open>http.StatusUnauthorized\<close>) and a message naming the operation; when it lacks the
  Analytics category, \<^verbatim>\<open>validateACL\<close> answers with status 401 and a message naming the
  category. The answer is the same for every downstream handler: the handler is not
  invoked.
\<close>

theorem failed_check_unauthorized:
  assumes "Context r user_CtxKey = Some (PtrUser (Some u))"
  shows "(Context r op_CtxKey = Some (PtrOperation (Some operation)) \<and> operation \<notin> set (Ops u) \<longrightarrow>
            (\<forall>h. validateOp h w r =
               Inr (WriteBackMessage w
                      (''user with user_id='' @ UserId u @ '' does not have '' @ [CHR 0x27]
                         @ op_String operation @ [CHR 0x27] @ '' op access'')
                      StatusUnauthorized)))
         \<and> (acl_Analytics \<notin> set (ACLs u) \<longrightarrow>
            (\<forall>h. validateACL h w r =
               Inr (WriteBackMessage w
                      (''user with \"user_id\"=\"'' @ UserId u @ ''\" does not have '' @ [CHR 0x27]
                         @ acl_String acl_Analytics @ [CHR 0x27] @ '' acl'')
                      StatusUnauthorized)))
         \<and> (\<not> wroteHeader w \<longrightarrow> sentStatus (WriteBackMessage w msg StatusUnauthorized) = 401)"
  using assms
  by (simp add: validateACL_def validateOp_def acl_Contains_def op_Contains_def
      sentStatus_WriteBackMessage)

theorem failed_check_unauthorized_witness:
  "validateOp okHandler NewRecorder (deleteBy carol) =
     Inr (WriteBackMessage NewRecorder
            (''user with user_id=carol does not have '' @ [CHR 0x27] @ ''delete''
               @ [CHR 0x27] @ '' op access'')
            StatusUnauthorized)
   \<and> validateACL okHandler NewRecorder (deleteBy carol) =
     Inr (WriteBackMessage NewRecorder
            (''user with \"user_id\"=\"carol\" does not have '' @ [CHR 0x27] @ ''analytics''
               @ [CHR 0x27] @ '' acl'')
            StatusUnauthorized)
   \<and> sentStatus (WriteBackMessage NewRecorder ''no'' StatusUnauthorized) = 401"
  using failed_check_unauthorized [of "deleteBy carol" carol op_Delete NewRecorder "''no''"]
  by (simp add: deleteBy_def exampleRequest_def carol_def acl_String_def op_String_def
      NewRecorder_def)

theorem forbidden_status_counterexample:
  "validateOp okHandler NewRecorder (deleteBy carol) =
     Inr (WriteBackMessage NewRecorder
            (''user with user_id=carol does not have '' @ [CHR 0x27] @ ''delete''
               @ [CHR 0x27] @ '' op access'')
            StatusUnauthorized)
   \<and> sentStatus (WriteBackMessage NewRecorder
            (''user with user_id=carol does not have '' @ [CHR 0x27] @ ''delete''
               @ [CHR 0x27] @ '' op access'')
            StatusUnauthorized) \<noteq> StatusForbidden"
  by (simp add: validateOp_def deleteBy_def exampleRequest_def carol_def op_Contains_def
      op_String_def sentStatus_WriteBackMessage NewRecorder_def)

subsection \<open>The response recorder\<close>

lemma uuid_String_nonempty: "uuid_String u \<noteq> []"
  by (simp add: uuid_String_def Let_def)

lemma Header_Get_Set: "Header_Get (Header_Set hm k v) k = v"
  by (simp add: Header_Get_def Header_Set_def)

text \<open>
  The capture branch: the handler runs on a fresh recorder, the client's writer gets the
  recorder's headers, the search id, the recorder's status and its body, and the
  goroutine is started with the search id the request carried.
\<close>

lemma Recorder_capture:
  assumes "Context r acl_CtxKey = Some (PtrACL (Some acl_Search))"
    and "Header_Get (Header r) XSearchQuery \<noteq> [] \<or> Header_Get (Header r) XSearchId \<noteq> []"
    and "h NewRecorder r = Inr respRecorder"
  shows "Recorder env h w r =
     (let docId = (if Header_Get (Header r) XSearchId = [] then uuid_String (uuid_New env)
                   else Header_Get (Header r) XSearchId)
      in Inr (Write (Body respRecorder) (WriteHeader (Code respRecorder)
           (w\<lparr>HeaderMap := Header_Set (HeaderMap w ++ HeaderMap respRecorder) XSearchId docId\<rparr>)),
           Some (Go_recordResponse docId (Header_Get (Header r) XSearchId) respRecorder r)))"
  using assms by (auto simp add: Recorder_def Let_def)

lemma upstream_NewRecorder:
  "upstream body NewRecorder r =
     Inr \<lparr>HeaderMap = [''Content-Type'' \<mapsto> [''application/json'']], wroteHeader = True,
          Code = 200, snapHeader = [''Content-Type'' \<mapsto> [''application/json'']], Body = body,
          reqMethod = None, written = 0\<rparr>"
  by (simp add: upstream_def NewRecorder_def Write_def WriteHeader_def Header_Set_def)

text \<open>
  C4. For a request classified as a search that carries a non-empty \<^verbatim>\<open>X-Search-Query\<close>,
  whose handler returns, the headers sent to the client (on a writer that has sent none
  before) carry a non-empty \<^verbatim>\<open>X-Search-Id\<close>: the one the client supplied when it
  supplied one, and the string of the fresh UUID otherwise.
\<close>

theorem search_id_header:
  assumes "Context r acl_CtxKey = Some (PtrACL (Some acl_Search))"
    and "Header_Get (Header r) XSearchQuery \<noteq> []"
    and "h NewRecorder r = Inr respRecorder"
    and "\<not> wroteHeader w"
  shows "\<exists>w' g. Recorder env h w r = Inr (w', g)
           \<and> Header_Get (sentHeader w') XSearchId \<noteq> []
           \<and> Header_Get (sentHeader w') XSearchId =
               (if Header_Get (Header r) XSearchId \<noteq> [] then Header_Get (Header r) XSearchId
                else uuid_String (uuid_New env))"
  using assms
  by (auto simp add: Recorder_capture Let_def sentHeader_def Write_status WriteHeader_def
      Header_Get_Set uuid_String_nonempty)

theorem search_id_header_witness:
  "\<exists>w' g. Recorder exampleEnv (upstream scenarioBody) NewRecorder scenarioRequest = Inr (w', g)
     \<and> Header_Get (sentHeader w') XSearchId \<noteq> []
     \<and> Header_Get (sentHeader w') XSearchId = uuid_String (uuid_New exampleEnv)"
proof -
  have a: "Context scenarioRequest acl_CtxKey = Some (PtrACL (Some acl_Search))"
    by (simp add: scenarioRequest_def searchRequest_def exampleRequest_def)
  have q: "Header_Get (Header scenarioRequest) XSearchQuery \<noteq> []"
    by (simp add: scenarioRequest_def searchRequest_def exampleRequest_def Header_Get_def)
  have i: "Header_Get (Header scenarioRequest) XSearchId = []"
    by (simp add: scenarioRequest_def searchRequest_def exampleRequest_def Header_Get_def)
  have w: "\<not> wroteHeader NewRecorder"
    by (simp add: NewRecorder_def)
  from search_id_header [where h = "upstream scenarioBody" and env = exampleEnv,
      OF a q upstream_NewRecorder w] i
  show ?thesis
    by simp
qed






text \<open>
  C9. For a request classified as a search that carries neither \<^verbatim>\<open>X-Search-Query\<close> nor
  \<^verbatim>\<open>X-Search-Id\<close>, the recorder's result is the handler's own run on the client's writer
  (so no header is added), and no goroutine is started (so no record is created).
\<close>

theorem recorder_passthrough:
  assumes "Context r acl_CtxKey = Some (PtrACL (Some acl_Search))"
    and "Header_Get (Header r) XSearchQuery = []"
    and "Header_Get (Header r) XSearchId = []"
  shows "Recorder env h w r = (case h w r of Inl e \<Rightarrow> Inl e | Inr w' \<Rightarrow> Inr (w', None))"
  using assms by (simp add: Recorder_def)

theorem recorder_passthrough_witness:
  "Recorder exampleEnv (upstream scenarioBody) NewRecorder plainRequest =
     Inr (\<lparr>HeaderMap = [''Content-Type'' \<mapsto> [''application/json'']], wroteHeader = True,
           Code = 200, snapHeader = [''Content-Type'' \<mapsto> [''application/json'']],
           Body = scenarioBody, reqMethod = None, written = 0\<rparr>, None)
   \<and> sentHeader \<lparr>HeaderMap = [''Content-Type'' \<mapsto> [''application/json'']], wroteHeader = True,
           Code = 200, snapHeader = [''Content-Type'' \<mapsto> [''application/json'']],
           Body = scenarioBody, reqMethod = None, written = 0\<rparr> XSearchId = None"
  using recorder_passthrough [of plainRequest exampleEnv "upstream scenarioBody" NewRecorder]
  by (simp add: plainRequest_def searchRequest_def exampleRequest_def Header_Get_def
      upstream_NewRecorder sentHeader_def)

subsection \<open>The analytics record\<close>

lemma recordResponse_events_keeps:
  "k \<notin> {''ip'', ''location'', ''country'', ''click'', ''click_position'', ''conversion'',
         ''custom_events''}
   \<Longrightarrow> recordResponse_events env r record k = record k"
  by (simp add: recordResponse_events_def Let_def split: option.splits)

lemma recordResponse_events_click:
  "recordResponse_events exampleEnv followupRequest record ''click'' = Some (VBool True)
   \<and> recordResponse_events exampleEnv followupRequest record ''click_position'' = Some (VInt 3)"
  by (simp add: recordResponse_events_def Let_def followupRequest_def searchRequest_def
      exampleRequest_def exampleEnv_def Header_Get_def strconv_ParseBool_def)

lemma recordResponse_origin_first:
  assumes "recordResponse_origin env [] r esResponse hits = Inr record"
  shows "originFields \<subseteq> dom record"
    and "(''search_filters'' \<in> dom record)
         = (parse env (Header_Get (Header r) XSearchFilters) \<noteq> [])"
  using assms
  by (auto simp add: recordResponse_origin_def originFields_def Let_def
      split: option.splits CtxValue.splits if_splits)

lemma recordResponse_origin_later:
  assumes "recordResponse_origin env searchId r esResponse hits = Inr record"
    and "searchId \<noteq> []"
  shows "dom record \<inter> originKeys = {}"
  using assms
  by (auto simp add: recordResponse_origin_def originKeys_def originFields_def Let_def)

lemma recordResponse_events_originKeys:
  "dom (recordResponse_events env r record) \<inter> originKeys = dom record \<inter> originKeys"
  by (auto simp add: dom_def originKeys_def originFields_def recordResponse_events_keeps)

lemma recordResponse_events_filters:
  "(''search_filters'' \<in> dom (recordResponse_events env r record))
   = (''search_filters'' \<in> dom record)"
  by (simp add: dom_def recordResponse_events_keeps)

lemma originFields_originKeys: "originFields \<subseteq> originKeys"
  by (auto simp add: originKeys_def)

lemma recordResponse_Some:
  assumes "recordResponse env docId searchId respRecorder r = Inr (Some (d, record))"
  obtains esResponse record0 where
    "recordResponse_origin env searchId r esResponse
       (recordResponse_hits env (HitList (Hits esResponse)) 0 []) = Inr record0"
    and "record = recordResponse_events env r record0" and "d = docId"
  using assms
  by (auto simp add: recordResponse_def Let_def split: option.splits sum.splits)

lemma recordResponse_hits_Nil: "recordResponse_hits env [] i hits = hits"
  by (simp add: recordResponse_hits.simps)

lemma Replace_scenarioBody:
  "Replace (Replace (Replace scenarioBody ''_source'' ''source'') ''_type'' ''type'') ''_id'' ''id''
   = ''{\"took\":7,\"hits\":{\"total\":2,\"hits\":[{\"id\":\"a\",\"type\":\"t\",\"source\":{\"k\":1}},''
       @ ''{\"id\":\"b\",\"type\":\"t\",\"source\":{\"k\":2}}]}}''"
  by (simp add: scenarioBody_def)

lemma not_msearch: "\<not> sublist ''_msearch'' ''/myidx/_search''"
  by (simp add: sublist_code(3))

lemma recordResponse_scenario:
  "recordResponse exampleEnv ''d'' (Header_Get (Header scenarioRequest) XSearchId)
     (Write scenarioBody NewRecorder) scenarioRequest
   = Inr (Some (''d'', recordResponse_events exampleEnv scenarioRequest scenarioOrigin))"
  by (simp add: recordResponse_def Write_def WriteHeader_def NewRecorder_def Replace_scenarioBody
      recordResponse_unmarshal_def scenarioRequest_def searchRequest_def exampleRequest_def
      exampleEnv_def recordResponse_origin_def Header_Get_def scenarioResponse_def
      recordResponse_hits.simps Let_def not_msearch scenarioOrigin_def)

lemma recordResponse_followup:
  "recordResponse exampleEnv ''prev'' (Header_Get (Header followupRequest) XSearchId)
     (Write scenarioBody NewRecorder) followupRequest
   = Inr (Some (''prev'', recordResponse_events exampleEnv followupRequest [''took'' \<mapsto> VFloat 7]))"
  by (simp add: recordResponse_def Write_def WriteHeader_def NewRecorder_def Replace_scenarioBody
      recordResponse_unmarshal_def followupRequest_def searchRequest_def exampleRequest_def
      exampleEnv_def recordResponse_origin_def Header_Get_def scenarioResponse_def
      Let_def not_msearch)

text \<open>
  Every record \<^verbatim>\<open>recordResponse\<close> builds has the origin fields exactly in the branch
  \<^verbatim>\<open>searchId == ""\<close>.
\<close>

lemma built_record_origin_fields:
  assumes "recordResponse env docId (Header_Get (Header r) XSearchId) respRecorder r
           = Inr (Some (d, record))"
  shows "(Header_Get (Header r) XSearchId = [] \<longrightarrow>
            originFields \<subseteq> dom record
            \<and> (''search_filters'' \<in> dom record
                 \<longleftrightarrow> parse env (Header_Get (Header r) XSearchFilters) \<noteq> []))
         \<and> (Header_Get (Header r) XSearchId \<noteq> [] \<longrightarrow> dom record \<inter> originKeys = {})"
proof -
  from assms obtain esResponse record0 where
    o: "recordResponse_origin env (Header_Get (Header r) XSearchId) r esResponse
          (recordResponse_hits env (HitList (Hits esResponse)) 0 []) = Inr record0"
    and rec: "record = recordResponse_events env r record0"
    by (rule recordResponse_Some)
  have keys: "dom record \<inter> originKeys = dom record0 \<inter> originKeys"
    unfolding rec by (rule recordResponse_events_originKeys)
  have filters: "(''search_filters'' \<in> dom record) = (''search_filters'' \<in> dom record0)"
    unfolding rec by (rule recordResponse_events_filters)
  show ?thesis
  proof (cases "Header_Get (Header r) XSearchId = []")
    case True
    with o have o': "recordResponse_origin env [] r esResponse
          (recordResponse_hits env (HitList (Hits esResponse)) 0 []) = Inr record0"
      by simp
    from recordResponse_origin_first(1) [OF o'] originFields_originKeys
    have "originFields \<subseteq> dom record0 \<inter> originKeys" by (rule Int_greatest)
    then have "originFields \<subseteq> dom record" unfolding keys [symmetric] by simp
    with recordResponse_origin_first(2) [OF o'] filters True show ?thesis by simp
  next
    case False
    from recordResponse_origin_later [OF o False] keys have "dom record \<inter> originKeys = {}"
      by simp
    with False show ?thesis by simp
  qed
qed

lemma recordResponse_origin_values:
  assumes "Context r index_CtxKey = Some (StringSlice indices)"
  shows "\<exists>record. recordResponse_origin env [] r esResponse hits = Inr record
           \<and> record ''took'' = Some (VFloat (Took esResponse))
           \<and> record ''indices'' = Some (VStrings indices)
           \<and> record ''search_query'' = Some (VString (Header_Get (Header r) XSearchQuery))
           \<and> record ''hits_in_response'' = Some (VHits hits)
           \<and> record ''total_hits'' = Some (VInt (Total (Hits esResponse)))
           \<and> record ''datestamp'' = Some (VString (time_Now_Format env))
           \<and> record ''search_filters'' =
               (if parse env (Header_Get (Header r) XSearchFilters) = [] then None
                else Some (VPairs (parse env (Header_Get (Header r) XSearchFilters))))"
  using assms by (simp add: recordResponse_origin_def Let_def)

lemma recordResponse_origin_took:
  assumes "searchId \<noteq> []"
  shows "recordResponse_origin env searchId r esResponse hits
         = Inr [''took'' \<mapsto> VFloat (Took esResponse)]"
  using assms by (simp add: recordResponse_origin_def Let_def)

text \<open>
  C7. \<^verbatim>\<open>Recorder\<close> starts \<^verbatim>\<open>recordResponse\<close> with \<open>searchId\<close> the value of the request's
  \<^verbatim>\<open>X-Search-Id\<close> header (empty when the request has none). Whenever the captured body
  parses, and the index names are in the context or a search id is carried,
  \<^verbatim>\<open>recordResponse\<close> hands a record to \<^verbatim>\<open>indexRecord\<close> under the document id. If the
  \<^verbatim>\<open>X-Search-Id\<close> value is empty, that record holds indices, search_query (the value of
  \<^verbatim>\<open>X-Search-Query\<close>), hits_in_response, total_hits and datestamp, and search_filters
  exactly when the parsed filters are non-empty; if it is not empty, the record holds
  none of the six.
\<close>

theorem origin_record_produced:
  assumes "recordResponse_unmarshal env (RequestURI r)
             (Replace (Replace (Replace (Body respRecorder) ''_source'' ''source'') ''_type'' ''type'')
                ''_id'' ''id'') = Some esResponse"
    and "Header_Get (Header r) XSearchId \<noteq> []
         \<or> Context r index_CtxKey = Some (StringSlice indices)"
  shows "\<exists>record.
           recordResponse env docId (Header_Get (Header r) XSearchId) respRecorder r
             = Inr (Some (docId, record))
           \<and> record ''took'' = Some (VFloat (Took esResponse))
           \<and> (Header_Get (Header r) XSearchId = [] \<longrightarrow>
                originFields \<subseteq> dom record
                \<and> record ''indices'' = Some (VStrings indices)
                \<and> record ''search_query'' = Some (VString (Header_Get (Header r) XSearchQuery))
                \<and> record ''hits_in_response''
                    = Some (VHits (recordResponse_hits env (HitList (Hits esResponse)) 0 []))
                \<and> record ''total_hits'' = Some (VInt (Total (Hits esResponse)))
                \<and> record ''datestamp'' = Some (VString (time_Now_Format env))
                \<and> (''search_filters'' \<in> dom record
                     \<longleftrightarrow> parse env (Header_Get (Header r) XSearchFilters) \<noteq> []))
           \<and> (Header_Get (Header r) XSearchId \<noteq> [] \<longrightarrow> dom record \<inter> originKeys = {})"
proof (cases "Header_Get (Header r) XSearchId = []")
  case True
  with assms(2) have ctx: "Context r index_CtxKey = Some (StringSlice indices)" by simp
  let ?hits = "recordResponse_hits env (HitList (Hits esResponse)) 0 []"
  from recordResponse_origin_values [OF ctx, of env esResponse ?hits]
  obtain record0 where o: "recordResponse_origin env [] r esResponse ?hits = Inr record0"
    and v: "record0 ''took'' = Some (VFloat (Took esResponse))"
      "record0 ''indices'' = Some (VStrings indices)"
      "record0 ''search_query'' = Some (VString (Header_Get (Header r) XSearchQuery))"
      "record0 ''hits_in_response'' = Some (VHits ?hits)"
      "record0 ''total_hits'' = Some (VInt (Total (Hits esResponse)))"
      "record0 ''datestamp'' = Some (VString (time_Now_Format env))"
    by blast
  let ?built = "recordResponse_events env r record0"
  have R: "recordResponse env docId (Header_Get (Header r) XSearchId) respRecorder r
           = Inr (Some (docId, ?built))"
    using assms(1) o True by (simp add: recordResponse_def Let_def)
  have keys: "dom ?built \<inter> originKeys = dom record0 \<inter> originKeys"
    by (rule recordResponse_events_originKeys)
  from recordResponse_origin_first(1) [OF o] originFields_originKeys
  have "originFields \<subseteq> dom record0 \<inter> originKeys" by (rule Int_greatest)
  then have five: "originFields \<subseteq> dom ?built" unfolding keys [symmetric] by simp
  have filters: "(''search_filters'' \<in> dom ?built)
                 = (parse env (Header_Get (Header r) XSearchFilters) \<noteq> [])"
    using recordResponse_origin_first(2) [OF o] by (simp add: recordResponse_events_filters)
  have "?built ''took'' = Some (VFloat (Took esResponse))"
    "?built ''indices'' = Some (VStrings indices)"
    "?built ''search_query'' = Some (VString (Header_Get (Header r) XSearchQuery))"
    "?built ''hits_in_response'' = Some (VHits ?hits)"
    "?built ''total_hits'' = Some (VInt (Total (Hits esResponse)))"
    "?built ''datestamp'' = Some (VString (time_Now_Format env))"
    using v by (simp_all add: recordResponse_events_keeps)
  with R five filters True show ?thesis by simp
next
  case False
  let ?built = "recordResponse_events env r [''took'' \<mapsto> VFloat (Took esResponse)]"
  have o: "recordResponse_origin env (Header_Get (Header r) XSearchId) r esResponse
             (recordResponse_hits env (HitList (Hits esResponse)) 0 [])
           = Inr [''took'' \<mapsto> VFloat (Took esResponse)]"
    using False by (rule recordResponse_origin_took)
  have R: "recordResponse env docId (Header_Get (Header r) XSearchId) respRecorder r
           = Inr (Some (docId, ?built))"
    using assms(1) o by (simp add: recordResponse_def Let_def)
  have t: "?built ''took'' = Some (VFloat (Took esResponse))"
    by (simp add: recordResponse_events_keeps)
  from recordResponse_origin_later [OF o False]
  have "dom ?built \<inter> originKeys = {}"
    by (simp add: recordResponse_events_originKeys)
  with R t False show ?thesis by simp
qed

theorem origin_record_produced_witness:
  "(\<exists>record. recordResponse exampleEnv ''d'' (Header_Get (Header scenarioRequest) XSearchId)
                (Write scenarioBody NewRecorder) scenarioRequest = Inr (Some (''d'', record))
       \<and> originFields \<subseteq> dom record
       \<and> record ''search_query'' = Some (VString ''shoes'')
       \<and> record ''total_hits'' = Some (VInt 2)
       \<and> ''search_filters'' \<notin> dom record)
   \<and> (\<exists>record. recordResponse exampleEnv ''prev'' (Header_Get (Header followupRequest) XSearchId)
                (Write scenarioBody NewRecorder) followupRequest = Inr (Some (''prev'', record))
       \<and> record ''took'' = Some (VFloat 7)
       \<and> dom record \<inter> originKeys = {})"
proof -
  have body: "Body (Write scenarioBody NewRecorder) = scenarioBody"
    by (simp add: Write_def WriteHeader_def NewRecorder_def)
  have u1: "recordResponse_unmarshal exampleEnv (RequestURI scenarioRequest)
             (Replace (Replace (Replace (Body (Write scenarioBody NewRecorder))
                ''_source'' ''source'') ''_type'' ''type'') ''_id'' ''id'') = Some scenarioResponse"
    by (simp add: body Replace_scenarioBody recordResponse_unmarshal_def scenarioRequest_def
        searchRequest_def exampleRequest_def exampleEnv_def not_msearch)
  have u2: "recordResponse_unmarshal exampleEnv (RequestURI followupRequest)
             (Replace (Replace (Replace (Body (Write scenarioBody NewRecorder))
                ''_source'' ''source'') ''_type'' ''type'') ''_id'' ''id'') = Some scenarioResponse"
    by (simp add: body Replace_scenarioBody recordResponse_unmarshal_def followupRequest_def
        searchRequest_def exampleRequest_def exampleEnv_def not_msearch)
  have i: "Header_Get (Header scenarioRequest) XSearchId = []"
    "Header_Get (Header scenarioRequest) XSearchQuery = ''shoes''"
    "Context scenarioRequest index_CtxKey = Some (StringSlice [''myidx''])"
    by (simp_all add: scenarioRequest_def searchRequest_def exampleRequest_def Header_Get_def)
  have f: "Header_Get (Header followupRequest) XSearchId \<noteq> []"
    by (simp add: followupRequest_def searchRequest_def exampleRequest_def Header_Get_def)
  have p: "parse exampleEnv s = []" for s
    by (simp add: exampleEnv_def)
  have s: "Took scenarioResponse = 7" "Total (Hits scenarioResponse) = 2"
    by (simp_all add: scenarioResponse_def)
  have c1: "Header_Get (Header scenarioRequest) XSearchId \<noteq> []
            \<or> Context scenarioRequest index_CtxKey = Some (StringSlice [''myidx''])"
    using i by simp
  have c2: "Header_Get (Header followupRequest) XSearchId \<noteq> []
            \<or> Context followupRequest index_CtxKey = Some (StringSlice [])"
    using f by simp
  have first: "\<exists>record. recordResponse exampleEnv ''d''
                (Header_Get (Header scenarioRequest) XSearchId)
                (Write scenarioBody NewRecorder) scenarioRequest = Inr (Some (''d'', record))
       \<and> originFields \<subseteq> dom record
       \<and> record ''search_query'' = Some (VString ''shoes'')
       \<and> record ''total_hits'' = Some (VInt 2)
       \<and> ''search_filters'' \<notin> dom record"
    using origin_record_produced [OF u1 c1, of "''d''"] i p s by auto
  have later: "\<exists>record. recordResponse exampleEnv ''prev''
                (Header_Get (Header followupRequest) XSearchId)
                (Write scenarioBody NewRecorder) followupRequest = Inr (Some (''prev'', record))
       \<and> record ''took'' = Some (VFloat 7)
       \<and> dom record \<inter> originKeys = {}"
    using origin_record_produced [OF u2 c2, of "''prev''"] f s by auto
  from first later show ?thesis by (rule conjI)
qed

lemma msearch_in_name: "sublist ''_msearch'' ''/my_msearch_logs/_search?size=1''"
  by (simp add: sublist_code(3))

text \<open>
  C10. Whenever the request URI holds \<^verbatim>\<open>_msearch\<close> anywhere, between any prefix and any
  suffix, the body is parsed as the envelope of a multi-search and the first response is
  taken (the zero response when there is none). When the parsed list of responses is
  empty, and the record can be built (the request carried a search id, or the index names
  are in its context), a record is still handed to \<^verbatim>\<open>indexRecord\<close>: its \<^verbatim>\<open>took\<close> is zero and,
  for an origin event, it has no hits and zero total hits.
\<close>

theorem msearch_anywhere:
  assumes "RequestURI r = p @ ''_msearch'' @ q"
  shows "recordResponse_unmarshal env (RequestURI r) body =
           (case json_Unmarshal_mSearchResponse env body of
              None \<Rightarrow> None
            | Some m \<Rightarrow> Some (case Responses m of [] \<Rightarrow> zero_searchResponse | first # _ \<Rightarrow> first))
         \<and> (json_Unmarshal_mSearchResponse env
               (Replace (Replace (Replace (Body respRecorder) ''_source'' ''source'') ''_type'' ''type'')
                  ''_id'' ''id'') = Some m
             \<and> Responses m = []
             \<and> (searchId \<noteq> [] \<or> Context r index_CtxKey = Some (StringSlice indices)) \<longrightarrow>
             (\<exists>record. recordResponse env docId searchId respRecorder r = Inr (Some (docId, record))
                \<and> record ''took'' = Some (VFloat 0)
                \<and> (searchId = [] \<longrightarrow>
                     record ''hits_in_response'' = Some (VHits [])
                     \<and> record ''total_hits'' = Some (VInt 0))))"
proof -
  have sub: "sublist ''_msearch'' (RequestURI r)"
    unfolding assms sublist_def by blast
  have u: "recordResponse_unmarshal env (RequestURI r) b =
           (case json_Unmarshal_mSearchResponse env b of
              None \<Rightarrow> None
            | Some m \<Rightarrow> Some (case Responses m of [] \<Rightarrow> zero_searchResponse | first # _ \<Rightarrow> first))"
    for b
    using sub by (simp add: recordResponse_unmarshal_def split: option.splits list.splits)
  show ?thesis
    by (auto simp add: u recordResponse_def Let_def recordResponse_hits_Nil zero_searchResponse_def
        recordResponse_origin_def recordResponse_events_keeps)
qed

theorem msearch_anywhere_witness:
  "recordResponse_unmarshal exampleEnv (RequestURI msearchNameRequest) ''{\"responses\":[]}''
     = Some zero_searchResponse
   \<and> (\<exists>record. recordResponse exampleEnv ''d'' [] (Write ''{\"responses\":[]}'' NewRecorder)
                  msearchNameRequest = Inr (Some (''d'', record))
        \<and> record ''took'' = Some (VFloat 0)
        \<and> record ''hits_in_response'' = Some (VHits [])
        \<and> record ''total_hits'' = Some (VInt 0))"
proof -
  have uri: "RequestURI msearchNameRequest = ''/my'' @ ''_msearch'' @ ''_logs/_search?size=1''"
    by (simp add: msearchNameRequest_def searchRequest_def exampleRequest_def)
  have body: "Replace (Replace (Replace (Body (Write ''{\"responses\":[]}'' NewRecorder))
                ''_source'' ''source'') ''_type'' ''type'') ''_id'' ''id'' = ''{\"responses\":[]}''"
    by (simp add: Write_def WriteHeader_def NewRecorder_def)
  have m: "json_Unmarshal_mSearchResponse exampleEnv ''{\"responses\":[]}'' = Some \<lparr>Responses = []\<rparr>"
    by (simp add: exampleEnv_def)
  have ctx: "Context msearchNameRequest index_CtxKey = Some (StringSlice [''my_msearch_logs''])"
    by (simp add: msearchNameRequest_def searchRequest_def exampleRequest_def)
  from msearch_anywhere [OF uri, of exampleEnv "''{\"responses\":[]}''"
      "Write ''{\"responses\":[]}'' NewRecorder" "\<lparr>Responses = []\<rparr>" "[]" "[''my_msearch_logs'']" "''d''"]
    body m ctx
  show ?thesis by simp
qed

subsection \<open>Context values that are absent or of another type\<close>

text \<open>
  \<^verbatim>\<open>Recorder\<close> answers both an absent category and one of another type with the internal
  error; \<^verbatim>\<open>validateOp\<close> and \<^verbatim>\<open>validateACL\<close> answer an absent user or operation with it.
\<close>

lemma Recorder_internal_error:
  "Context r acl_CtxKey = None \<or> Context r acl_CtxKey = Some (OtherValue v)
   \<Longrightarrow> Recorder env h w r =
       Inr (WriteBackMessage w ''Internal server error'' StatusInternalServerError, None)"
  by (auto simp add: Recorder_def)

lemma validate_internal_error:
  "Context r user_CtxKey = None
   \<Longrightarrow> validateOp h w r = Inr (WriteBackMessage w ''Internal server error'' StatusInternalServerError)
       \<and> validateACL h w r = Inr (WriteBackMessage w ''Internal server error'' StatusInternalServerError)"
  by (simp add: validateOp_def validateACL_def)

text \<open>
  C8. Two places leave the rule: in \<^verbatim>\<open>recordResponse\<close> the index names are read with an
  unchecked type assertion (line 146, marked \<^verbatim>\<open>TODO: error check?\<close>), which panics on the
  origin search of scenario 4 when its context holds no index names; in \<^verbatim>\<open>validateOp\<close>
  the user is read with an unchecked type assertion, which panics when the context holds
  a value of another type. Neither answers with an internal error.
\<close>

theorem unchecked_context_value_panics:
  "recordResponse exampleEnv ''d'' (Header_Get (Header noIndexRequest) XSearchId)
     (Write scenarioBody NewRecorder) noIndexRequest = Inl Panic
   \<and> validateOp okHandler NewRecorder untypedUserRequest = Inl Panic"
  by (simp add: recordResponse_def Write_def WriteHeader_def NewRecorder_def Replace_scenarioBody
      recordResponse_unmarshal_def noIndexRequest_def searchRequest_def exampleRequest_def
      exampleEnv_def recordResponse_origin_def validateOp_def untypedUserRequest_def deleteBy_def
      Header_Get_def Let_def not_msearch)

theorem unchecked_context_value_panics_witness:
  "isl (recordResponse exampleEnv ''d'' (Header_Get (Header noIndexRequest) XSearchId)
          (Write scenarioBody NewRecorder) noIndexRequest)
   \<and> isl (validateOp okHandler NewRecorder untypedUserRequest)"
  using unchecked_context_value_panics by simp

subsection \<open>Patching the categories of a principal\<close>

lemma sentStatus_WriteBackError:
  "\<not> wroteHeader w \<Longrightarrow> sentStatus (WriteBackError w msg c) = c"
  by (simp add: sentStatus_def WriteBackError_def Write_status WriteHeader_def)

lemma ValidateCategories_Some:
  assumes "ValidateCategories tbl u categories = Some err"
  shows "\<exists>c \<in> set categories. (\<forall>a \<in> set (ACLs u). (c, a) \<notin> set tbl) \<and> err = invalidCategory c"
proof -
  from assms obtain c cs where
    f: "filter (\<lambda>c. \<not> (\<exists>a \<in> set (ACLs u). (c, a) \<in> set tbl)) categories = c # cs"
    and e: "err = invalidCategory c"
    by (auto simp add: ValidateCategories_def split: list.splits)
  have "c \<in> set (filter (\<lambda>c. \<not> (\<exists>a \<in> set (ACLs u). (c, a) \<in> set tbl)) categories)"
    unfolding f by simp
  with e show ?thesis by auto
qed

lemma ValidateCategories_None:
  "ValidateCategories tbl u categories = None
   \<longleftrightarrow> (\<forall>c \<in> set categories. \<exists>a \<in> set (ACLs u). (c, a) \<in> set tbl)"
proof -
  have "ValidateCategories tbl u categories = None
        \<longleftrightarrow> filter (\<lambda>c. \<not> (\<exists>a \<in> set (ACLs u). (c, a) \<in> set tbl)) categories = []"
    by (simp add: ValidateCategories_def split: list.splits)
  then show ?thesis
    by (simp add: filter_empty_conv)
qed

text \<open>When the categories pass, the handlers go on to the store and answer with its result.\<close>

lemma patchUser_validated_calls_store:
  assumes "ReqBody r = Some body" and "json_Unmarshal_User env body = Some userBody"
    and "GetPatch env userBody = Inr patch"
    and "patch ''acls'' = None" and "patch ''categories'' = Some (PatchCategories categories)"
    and "BasicAuth r = Some (username, password)"
    and "es_getUser env s username = Some reqUser"
    and "ValidateCategories (category_acls env) reqUser categories = None"
  shows "patchUser env s w r =
           (case es_patchUser env s username patch of
              (Some raw, s') \<Rightarrow> (WriteBackRaw w raw StatusOK, s')
            | (None, s') \<Rightarrow>
                (WriteBackError w (''user with \"username\"=\"'' @ username @ ''\" Not Found'')
                   StatusNotFound, s'))"
  using assms by (simp add: patchUser_def)

text \<open>
  C6. For a patch that sets categories and not acls, on a principal the store returns:
  when \<^verbatim>\<open>ValidateCategories\<close> refuses the categories against the stored principal's
  acls, both handlers answer 400 with its error, which names a category of the patch that
  no acl of the principal admits; the state of the store is unchanged, whatever the
  store's \<^verbatim>\<open>patchUser\<close> would do: it is not called.
\<close>

theorem patch_categories_validated:
  assumes "ReqBody r = Some body" and "json_Unmarshal_User env body = Some userBody"
    and "GetPatch env userBody = Inr patch"
    and "patch ''acls'' = None" and "patch ''categories'' = Some (PatchCategories categories)"
    and "ValidateCategories (category_acls env) reqUser categories = Some err"
  shows "(es_getUser env s (case BasicAuth r of None \<Rightarrow> [] | Some (username, password) \<Rightarrow> username)
            = Some reqUser \<longrightarrow>
            (\<forall>f. patchUser (env\<lparr>es_patchUser := f\<rparr>) s w r
                   = (WriteBackError w err StatusBadRequest, s)))
         \<and> (\<forall>username. mux_Vars r ''username'' = Some username
                \<and> es_getUser env s username = Some reqUser \<longrightarrow>
            (\<forall>f. patchUserWithUsername (env\<lparr>es_patchUser := f\<rparr>) s w r
                   = (WriteBackError w err StatusBadRequest, s)))
         \<and> (\<exists>c \<in> set categories.
               (\<forall>a \<in> set (ACLs reqUser). (c, a) \<notin> set (category_acls env))
               \<and> err = invalidCategory c)
         \<and> (\<not> wroteHeader w \<longrightarrow> sentStatus (WriteBackError w err StatusBadRequest) = 400)"
proof -
  have one: "patchUser (env\<lparr>es_patchUser := f\<rparr>) s w r = (WriteBackError w err StatusBadRequest, s)"
    if "es_getUser env s (case BasicAuth r of None \<Rightarrow> [] | Some (username, password) \<Rightarrow> username)
          = Some reqUser" for f
    using assms that by (simp add: patchUser_def)
  have two: "patchUserWithUsername (env\<lparr>es_patchUser := f\<rparr>) s w r
               = (WriteBackError w err StatusBadRequest, s)"
    if "mux_Vars r ''username'' = Some username" and "es_getUser env s username = Some reqUser"
    for f username
    using assms that by (simp add: patchUserWithUsername_def)
  from one two ValidateCategories_Some [OF assms(6)] show ?thesis
    by (simp add: sentStatus_WriteBackError)
qed

theorem patch_categories_validated_witness:
  "patchUser exampleUsersEnv [(''dave'', dave)] NewRecorder patchRequest
     = (WriteBackError NewRecorder (invalidCategory ''user'') StatusBadRequest, [(''dave'', dave)])
   \<and> patchUserWithUsername exampleUsersEnv [(''dave'', dave)] NewRecorder patchRequest
     = (WriteBackError NewRecorder (invalidCategory ''user'') StatusBadRequest, [(''dave'', dave)])
   \<and> sentStatus (WriteBackError NewRecorder (invalidCategory ''user'') StatusBadRequest) = 400"
proof -
  let ?patch = "[''categories'' \<mapsto> PatchCategories [''user'']]"
  have b: "ReqBody patchRequest = Some ''{\"categories\":[\"user\"]}''"
    by (simp add: patchRequest_def exampleRequest_def)
  have u: "json_Unmarshal_User exampleUsersEnv ''{\"categories\":[\"user\"]}''
             = Some \<lparr>UserId = [], Username = [], Password = [], Email = [], IsAdmin = None,
                      ACLs = [], Ops = [], Categories = [''user''], Indices = []\<rparr>"
    by (simp add: exampleUsersEnv_def)
  have g: "GetPatch exampleUsersEnv
             \<lparr>UserId = [], Username = [], Password = [], Email = [], IsAdmin = None,
              ACLs = [], Ops = [], Categories = [''user''], Indices = []\<rparr> = Inr ?patch"
    by (simp add: exampleUsersEnv_def)
  have a: "?patch ''acls'' = None" and c: "?patch ''categories'' = Some (PatchCategories [''user''])"
    by simp_all
  have v: "ValidateCategories (category_acls exampleUsersEnv) dave [''user'']
             = Some (invalidCategory ''user'')"
    by (simp add: ValidateCategories_def exampleUsersEnv_def dave_def)
  have e: "exampleUsersEnv\<lparr>es_patchUser := es_patchUser exampleUsersEnv\<rparr> = exampleUsersEnv"
    by simp
  have w: "\<not> wroteHeader NewRecorder"
    by (simp add: NewRecorder_def)
  from patch_categories_validated [OF b u g a c v, of "[(''dave'', dave)]" NewRecorder] e w
  show ?thesis
    by (simp add: patchRequest_def exampleRequest_def exampleUsersEnv_def)
qed

end
